theory Spec2Isabelle
  imports Complex_Main
begin

section \<open>JavaScript strings\<close>

text \<open>
  Strings are modelled as \<^typ>\<open>string\<close>, one \<^typ>\<open>char\<close> per code unit: the strings
  whose code units are below 256 (U+0000 to U+00FF). On these, \<open>toLowerCase\<close> adds 32 to
  the code units of A..Z (65 to 90) and of the capital letters U+00C0 to U+00DE other than
  the multiplication sign U+00D7, and leaves every other code unit alone; the white space
  that \<open>trim\<close> strips is tab, line feed, vertical tab, form feed, carriage return, space
  and the no-break space U+00A0.
\<close>

definition toLowerCase_char :: "char \<Rightarrow> char" where
  "toLowerCase_char c =
     (let u = (of_char c :: nat) in
      if (65 \<le> u \<and> u \<le> 90) \<or> (192 \<le> u \<and> u \<le> 222 \<and> u \<noteq> 215)
      then char_of (u + 32) else c)"

definition toLowerCase :: "string \<Rightarrow> string" where
  "toLowerCase s = map toLowerCase_char s"

definition isWhiteSpace :: "char \<Rightarrow> bool" where
  "isWhiteSpace c = ((of_char c :: nat) \<in> {9, 10, 11, 12, 13, 32, 160})"

definition trim :: "string \<Rightarrow> string" where
  "trim s = rev (dropWhile isWhiteSpace (rev (dropWhile isWhiteSpace s)))"

definition startsWith :: "string \<Rightarrow> string \<Rightarrow> bool" where
  "startsWith s p = (take (length p) s = p)"

definition endsWith :: "string \<Rightarrow> string \<Rightarrow> bool" where
  "endsWith s p = (length p \<le> length s \<and> drop (length s - length p) s = p)"

text \<open>\<open>s.includes(q)\<close>: \<open>q\<close> occurs in \<open>s\<close> at some position.\<close>

fun includes_str :: "string \<Rightarrow> string \<Rightarrow> bool" where
  "includes_str [] q = (q = [])"
| "includes_str (c # cs) q = (startsWith (c # cs) q \<or> includes_str cs q)"



section \<open>The toolbar\<close>





section \<open>JavaScript values\<close>

text \<open>
  The values a sub-block field can hold: \<open>undefined\<close>, \<open>null\<close>, booleans, numbers,
  BigInts, strings, arrays and plain objects. The hook never mutates an object, so a value
  is a finite tree; every array and object carries the address it was allocated at, which
  is its identity: two objects are the same reference when their addresses agree. A number
  is \<open>NaN\<close>, an infinity, negative zero or a finite value, which is a rational (every
  finite double is one; \<open>Finite 0\<close> is positive zero).
\<close>

datatype jsnum = NaN | PosInfinity | NegInfinity | NegZero | Finite rat

datatype jsval =
    JUndefined
  | JNull
  | JBool bool
  | JNum jsnum
  | JBigInt int
  | JStr string
  | JArr nat "jsval list"
  | JObj nat "(string \<times> jsval) list"

text \<open>\<open>typeof v === 'object'\<close> (which holds of \<open>null\<close> too).\<close>

fun typeof_object :: "jsval \<Rightarrow> bool" where
  "typeof_object JNull = True"
| "typeof_object (JArr a xs) = True"
| "typeof_object (JObj a ps) = True"
| "typeof_object v = False"

text \<open>The truthiness test of \<open>if (v)\<close>, \<open>!v\<close> and \<open>v && ...\<close>.\<close>

fun truthy :: "jsval \<Rightarrow> bool" where
  "truthy JUndefined = False"
| "truthy JNull = False"
| "truthy (JBool b) = b"
| "truthy (JNum n) = (n \<noteq> NaN \<and> n \<noteq> NegZero \<and> n \<noteq> Finite 0)"
| "truthy (JBigInt i) = (i \<noteq> 0)"
| "truthy (JStr s) = (s \<noteq> [])"
| "truthy (JArr a xs) = True"
| "truthy (JObj a ps) = True"

text \<open>
  Truthiness of a \<open>string | null | undefined\<close>: \<open>None\<close> stands for \<open>null\<close> or
  \<open>undefined\<close>, and the empty string is falsy as well.
\<close>

definition truthy_str :: "string option \<Rightarrow> bool" where
  "truthy_str x = (case x of None \<Rightarrow> False | Some s \<Rightarrow> s \<noteq> [])"

text \<open>Strict equality \<open>===\<close>: by value on primitives, by address on arrays and objects.\<close>

fun strictEquals :: "jsval \<Rightarrow> jsval \<Rightarrow> bool" where
  "strictEquals JUndefined w = (w = JUndefined)"
| "strictEquals JNull w = (w = JNull)"
| "strictEquals (JBool b) w = (w = JBool b)"
| "strictEquals (JNum n) w =
     (case w of
        JNum m \<Rightarrow> n \<noteq> NaN \<and> (n = m \<or> (n \<in> {NegZero, Finite 0} \<and> m \<in> {NegZero, Finite 0}))
      | _ \<Rightarrow> False)"
| "strictEquals (JBigInt i) w = (w = JBigInt i)"
| "strictEquals (JStr s) w = (w = JStr s)"
| "strictEquals (JArr a xs) w = (case w of JArr b ys \<Rightarrow> a = b | _ \<Rightarrow> False)"
| "strictEquals (JObj a ps) w = (case w of JObj b qs \<Rightarrow> a = b | _ \<Rightarrow> False)"

text \<open>Decimal digits of a natural number, for \<open>String\<close> of a BigInt.\<close>

function showNat :: "nat \<Rightarrow> string" where
  "showNat n =
     (if n < 10 then [''0123456789'' ! n]
      else showNat (n div 10) @ [''0123456789'' ! (n mod 10)])"
  by pat_completeness auto
termination
  by (relation "measure id") auto

declare showNat.simps [simp del]

definition showBigInt :: "int \<Rightarrow> string" where
  "showBigInt i = (if i < 0 then CHR ''-'' # showNat (nat (- i)) else showNat (nat i))"

text \<open>
  \<open>String\<close> of a number. How the runtime prints a finite number (shortest digits that
  read back as the same double, exponent notation from \<open>1e21\<close> on) is a parameter,
  \<open>numberToString\<close>.
\<close>

type_synonym number_printer = "rat \<Rightarrow> string"

definition showNum :: "number_printer \<Rightarrow> jsnum \<Rightarrow> string" where
  "showNum numberToString n =
     (case n of
        NaN \<Rightarrow> ''NaN''
      | PosInfinity \<Rightarrow> ''Infinity''
      | NegInfinity \<Rightarrow> ''-Infinity''
      | NegZero \<Rightarrow> ''0''
      | Finite q \<Rightarrow> numberToString q)"

text \<open>
  \<open>String(v)\<close>. An array prints its elements joined by commas, \<open>null\<close> and \<open>undefined\<close>
  elements as nothing; a plain object prints as \<open>[object Object]\<close>.
\<close>

fun ToString :: "number_printer \<Rightarrow> jsval \<Rightarrow> string"
  and joinElems :: "number_printer \<Rightarrow> jsval list \<Rightarrow> string" where
  "ToString p JUndefined = ''undefined''"
| "ToString p JNull = ''null''"
| "ToString p (JBool b) = (if b then ''true'' else ''false'')"
| "ToString p (JNum n) = showNum p n"
| "ToString p (JBigInt i) = showBigInt i"
| "ToString p (JStr s) = s"
| "ToString p (JArr a xs) = joinElems p xs"
| "ToString p (JObj a ps) = ''[object Object]''"
| "joinElems p [] = []"
| "joinElems p [x] = (if x = JUndefined \<or> x = JNull then [] else ToString p x)"
| "joinElems p (x # y # ys) =
     (if x = JUndefined \<or> x = JNull then [] else ToString p x) @ '','' @ joinElems p (y # ys)"

text \<open>
  lodash's \<open>isEqual\<close>: primitives by \<open>===\<close> or both \<open>NaN\<close>; arrays by length and
  elementwise; plain objects by the number of their keys and, for each key of the first, a
  deep-equal value under the same key of the second. Addresses play no part.
\<close>

fun isEqual :: "jsval \<Rightarrow> jsval \<Rightarrow> bool"
  and equalArrays :: "jsval list \<Rightarrow> jsval list \<Rightarrow> bool"
  and equalObjects :: "(string \<times> jsval) list \<Rightarrow> (string \<times> jsval) list \<Rightarrow> bool" where
  "isEqual JUndefined w = (w = JUndefined)"
| "isEqual JNull w = (w = JNull)"
| "isEqual (JBool b) w = (w = JBool b)"
| "isEqual (JNum n) w =
     (case w of
        JNum m \<Rightarrow> n = m \<or> (n \<in> {NegZero, Finite 0} \<and> m \<in> {NegZero, Finite 0})
      | _ \<Rightarrow> False)"
| "isEqual (JBigInt i) w = (w = JBigInt i)"
| "isEqual (JStr s) w = (w = JStr s)"
| "isEqual (JArr a xs) w = (case w of JArr b ys \<Rightarrow> equalArrays xs ys | _ \<Rightarrow> False)"
| "isEqual (JObj a ps) w =
     (case w of JObj b qs \<Rightarrow> length ps = length qs \<and> equalObjects ps qs | _ \<Rightarrow> False)"
| "equalArrays [] ys = (ys = [])"
| "equalArrays (x # xs) ys =
     (case ys of [] \<Rightarrow> False | y # ys' \<Rightarrow> isEqual x y \<and> equalArrays xs ys')"
| "equalObjects [] qs = True"
| "equalObjects ((k, v) # ps) qs =
     (case map_of qs k of None \<Rightarrow> False | Some w \<Rightarrow> isEqual v w \<and> equalObjects ps qs)"

text \<open>The error a failing call throws.\<close>

datatype js_error = TypeError

text \<open>
  \<open>JSON.parse(JSON.stringify(v))\<close>, given the first address the allocator has not handed
  out yet; it returns the copy and the next free address, or the error thrown.
  \<open>JSON.stringify\<close> throws a \<open>TypeError\<close> on a BigInt. Every array and object of the
  copy is newly allocated. A property whose value is \<open>undefined\<close> is dropped, an
  \<open>undefined\<close> array element becomes \<open>null\<close>, \<open>NaN\<close> and the infinities become \<open>null\<close>,
  negative zero becomes zero.
\<close>

fun jsonClone :: "nat \<Rightarrow> jsval \<Rightarrow> js_error + (jsval \<times> nat)"
  and jsonCloneElems :: "nat \<Rightarrow> jsval list \<Rightarrow> js_error + (jsval list \<times> nat)"
  and jsonCloneProps ::
    "nat \<Rightarrow> (string \<times> jsval) list \<Rightarrow> js_error + ((string \<times> jsval) list \<times> nat)" where
  "jsonClone n JUndefined = Inr (JNull, n)"
| "jsonClone n JNull = Inr (JNull, n)"
| "jsonClone n (JBool b) = Inr (JBool b, n)"
| "jsonClone n (JNum x) =
     (case x of
        Finite q \<Rightarrow> Inr (JNum (Finite q), n)
      | NegZero \<Rightarrow> Inr (JNum (Finite 0), n)
      | _ \<Rightarrow> Inr (JNull, n))"
| "jsonClone n (JBigInt i) = Inl TypeError"
| "jsonClone n (JStr s) = Inr (JStr s, n)"
| "jsonClone n (JArr a xs) =
     (case jsonCloneElems (Suc n) xs of Inl e \<Rightarrow> Inl e | Inr (ys, m) \<Rightarrow> Inr (JArr n ys, m))"
| "jsonClone n (JObj a ps) =
     (case jsonCloneProps (Suc n) ps of Inl e \<Rightarrow> Inl e | Inr (qs, m) \<Rightarrow> Inr (JObj n qs, m))"
| "jsonCloneElems n [] = Inr ([], n)"
| "jsonCloneElems n (x # xs) =
     (case jsonClone n x of
        Inl e \<Rightarrow> Inl e
      | Inr (y, m) \<Rightarrow>
          (case jsonCloneElems m xs of Inl e \<Rightarrow> Inl e | Inr (ys, l) \<Rightarrow> Inr (y # ys, l)))"
| "jsonCloneProps n [] = Inr ([], n)"
| "jsonCloneProps n ((k, v) # ps) =
     (if v = JUndefined then jsonCloneProps n ps
      else
        (case jsonClone n v of
           Inl e \<Rightarrow> Inl e
         | Inr (w, m) \<Rightarrow>
             (case jsonCloneProps m ps of
                Inl e \<Rightarrow> Inl e
              | Inr (qs, l) \<Rightarrow> Inr ((k, w) # qs, l))))"

text \<open>
  The values \<open>JSON.stringify\<close> accepts: no BigInt anywhere inside (a property whose value
  is \<open>undefined\<close> is skipped, so such a value is accepted).
\<close>

fun serialisable :: "jsval \<Rightarrow> bool"
  and serialisableElems :: "jsval list \<Rightarrow> bool"
  and serialisableProps :: "(string \<times> jsval) list \<Rightarrow> bool" where
  "serialisable (JArr a xs) = serialisableElems xs"
| "serialisable (JObj a ps) = serialisableProps ps"
| "serialisable (JBigInt i) = False"
| "serialisable v = True"
| "serialisableElems [] = True"
| "serialisableElems (x # xs) = (serialisable x \<and> serialisableElems xs)"
| "serialisableProps [] = True"
| "serialisableProps ((k, v) # ps) = (serialisable v \<and> serialisableProps ps)"

text \<open>
  A value is allocated below \<open>n\<close> when each of its arrays and objects has an address below
  \<open>n\<close> and the keys of each object are distinct.
\<close>

fun allocated :: "nat \<Rightarrow> jsval \<Rightarrow> bool"
  and allocatedElems :: "nat \<Rightarrow> jsval list \<Rightarrow> bool"
  and allocatedProps :: "nat \<Rightarrow> (string \<times> jsval) list \<Rightarrow> bool" where
  "allocated n (JArr a xs) = (a < n \<and> allocatedElems n xs)"
| "allocated n (JObj a ps) = (a < n \<and> distinct (map fst ps) \<and> allocatedProps n ps)"
| "allocated n v = True"
| "allocatedElems n [] = True"
| "allocatedElems n (x # xs) = (allocated n x \<and> allocatedElems n xs)"
| "allocatedProps n [] = True"
| "allocatedProps n ((k, v) # ps) = (allocated n v \<and> allocatedProps n ps)"

text \<open>The addresses of the arrays and objects of a value.\<close>

fun addresses :: "jsval \<Rightarrow> nat set"
  and addressesElems :: "jsval list \<Rightarrow> nat set"
  and addressesProps :: "(string \<times> jsval) list \<Rightarrow> nat set" where
  "addresses (JArr a xs) = insert a (addressesElems xs)"
| "addresses (JObj a ps) = insert a (addressesProps ps)"
| "addresses v = {}"
| "addressesElems [] = {}"
| "addressesElems (x # xs) = addresses x \<union> addressesElems xs"
| "addressesProps [] = {}"
| "addressesProps ((k, v) # ps) = addresses v \<union> addressesProps ps"

text \<open>
  The values that JSON represents without loss up to deep equality: no \<open>undefined\<close>,
  \<open>NaN\<close>, infinity or BigInt anywhere inside.
\<close>

fun jsonClean :: "jsval \<Rightarrow> bool"
  and jsonCleanElems :: "jsval list \<Rightarrow> bool"
  and jsonCleanProps :: "(string \<times> jsval) list \<Rightarrow> bool" where
  "jsonClean (JArr a xs) = jsonCleanElems xs"
| "jsonClean (JObj a ps) = jsonCleanProps ps"
| "jsonClean JUndefined = False"
| "jsonClean (JBigInt i) = False"
| "jsonClean (JNum n) = (n \<noteq> NaN \<and> n \<noteq> PosInfinity \<and> n \<noteq> NegInfinity)"
| "jsonClean v = True"
| "jsonCleanElems [] = True"
| "jsonCleanElems (x # xs) = (jsonClean x \<and> jsonCleanElems xs)"
| "jsonCleanProps [] = True"
| "jsonCleanProps ((k, v) # ps) = (jsonClean v \<and> jsonCleanProps ps)"

section \<open>The stores the hook talks to\<close>




text \<open>
  The SubBlock store is a separate module. The hook reads it through \<open>getValue\<close>,
  \<open>resolveToolParamValue\<close> and \<open>isParamCleared\<close>, which are parameters here (the store
  as one render sees it), and writes it through the calls below, which the model records
  in the order the hook makes them. \<open>TriggerUpdate\<close> is the Workflow store's
  \<open>triggerUpdate()\<close>.
\<close>

record SubBlockStore =
  getValue :: "string \<Rightarrow> string \<Rightarrow> jsval"
  resolveToolParamValue :: "string \<Rightarrow> string \<Rightarrow> string \<Rightarrow> string option"
  isParamCleared :: "string \<Rightarrow> string \<Rightarrow> bool"

datatype store_call =
    SetValue string string jsval
  | SetToolParam string string string
  | MarkParamAsCleared string string
  | UnmarkParamAsCleared string string
  | TriggerUpdate

text \<open>\<open>getProviderFromModel\<close> is imported from the providers module and is a parameter.\<close>

type_synonym provider_fn = "string \<Rightarrow> string option"

section \<open>The helpers of the hook\<close>

definition handleProviderBasedApiKey ::
  "provider_fn \<Rightarrow> SubBlockStore \<Rightarrow> string \<Rightarrow> string \<Rightarrow> string option \<Rightarrow> jsval
     \<Rightarrow> store_call list" where
  "handleProviderBasedApiKey getProviderFromModel subBlockStore blockId subBlockId modelValue
      storeValue =
     (case modelValue of
        None \<Rightarrow> []
      | Some model \<Rightarrow>
          if model = [] then []
          else
            (case getProviderFromModel model of
               None \<Rightarrow> []
             | Some provider \<Rightarrow>
                 if provider = [] \<or> provider = ''ollama'' then []
                 else
                   (case resolveToolParamValue subBlockStore provider ''apiKey'' blockId of
                      None \<Rightarrow> [SetValue blockId subBlockId (JStr [])]
                    | Some savedValue \<Rightarrow>
                        if savedValue \<noteq> [] then [SetValue blockId subBlockId (JStr savedValue)]
                        else [SetValue blockId subBlockId (JStr [])])))"

text \<open>A string of the form \<open>{{...}}\<close>: a reference to an environment variable.\<close>

definition isEnvVarReference :: "jsval \<Rightarrow> bool" where
  "isEnvVarReference v =
     (case v of JStr s \<Rightarrow> startsWith s ''{{'' \<and> endsWith s ''}}'' | _ \<Rightarrow> False)"

definition handleStandardBlockApiKey ::
  "SubBlockStore \<Rightarrow> string \<Rightarrow> string \<Rightarrow> string option \<Rightarrow> jsval \<Rightarrow> store_call list" where
  "handleStandardBlockApiKey subBlockStore blockId subBlockId blockType storeValue =
     (case blockType of
        None \<Rightarrow> []
      | Some bt \<Rightarrow>
          if bt = [] then []
          else if \<not> truthy storeValue \<or> strictEquals storeValue (JStr []) then
            (case resolveToolParamValue subBlockStore bt ''apiKey'' blockId of
               None \<Rightarrow> []
             | Some savedValue \<Rightarrow>
                 if savedValue \<noteq> [] \<and> \<not> strictEquals (JStr savedValue) storeValue
                 then [SetValue blockId subBlockId (JStr savedValue)]
                 else [])
          else if truthy storeValue \<and> isEnvVarReference storeValue then
            (case resolveToolParamValue subBlockStore bt ''apiKey'' blockId of
               None \<Rightarrow> []
             | Some currentValue \<Rightarrow>
                 if \<not> strictEquals (JStr currentValue) storeValue \<and> currentValue \<noteq> []
                 then [SetValue blockId subBlockId (JStr currentValue)]
                 else [])
          else [])"

text \<open>\<open>String(newValue).trim() === ''\<close>\<close>

definition isBlank :: "number_printer \<Rightarrow> jsval \<Rightarrow> bool" where
  "isBlank numberToString v = (trim (ToString numberToString v) = [])"

definition isProviderBasedType :: "string \<Rightarrow> bool" where
  "isProviderBasedType bt = (bt = ''agent'' \<or> bt = ''router'' \<or> bt = ''evaluator'')"

definition storeApiKeyValue ::
  "number_printer \<Rightarrow> provider_fn \<Rightarrow> SubBlockStore \<Rightarrow> string \<Rightarrow> string option
     \<Rightarrow> string option \<Rightarrow> jsval \<Rightarrow> jsval \<Rightarrow> store_call list" where
  "storeApiKeyValue numberToString getProviderFromModel subBlockStore blockId blockType
      modelValue newValue storeValue =
     (case blockType of
        None \<Rightarrow> []
      | Some bt \<Rightarrow>
          if bt = [] then []
          else if truthy storeValue \<and> \<not> strictEquals storeValue (JStr []) \<and>
                  (newValue = JNull \<or> newValue = JStr [] \<or> isBlank numberToString newValue)
          then [MarkParamAsCleared blockId ''apiKey'']
          else if \<not> truthy newValue \<or> isBlank numberToString newValue then []
          else
            (if isParamCleared subBlockStore blockId ''apiKey''
             then [UnmarkParamAsCleared blockId ''apiKey''] else []) @
            (if isProviderBasedType bt \<and> truthy_str modelValue then
               (case modelValue of
                  None \<Rightarrow> []
                | Some model \<Rightarrow>
                    (case getProviderFromModel model of
                       None \<Rightarrow> []
                     | Some provider \<Rightarrow>
                         if provider \<noteq> [] \<and> provider \<noteq> ''ollama''
                         then [SetToolParam provider ''apiKey''
                                 (ToString numberToString newValue)]
                         else []))
             else [SetToolParam bt ''apiKey'' (ToString numberToString newValue)]))"

section \<open>The hook\<close>

text \<open>
  What one render of \<open>useSubBlockValue(blockId, subBlockId, triggerWorkflowUpdate)\<close> binds:
  its arguments and what its store selectors returned. The model field is read as a
  \<open>string | null\<close>, as the hook's cast declares it.
\<close>

record hook_render =
  blockId :: string
  subBlockId :: string
  triggerWorkflowUpdate :: bool
  blockType :: "string option"
  initialValue :: jsval
  storeValue :: jsval
  isAutoFillEnvVarsEnabled :: bool
  modelSubBlockValue :: "string option"

text \<open>
  What lives across renders: the two refs, and the next free address of the allocator
  (\<open>JSON.parse\<close> allocates the copy it returns).
\<close>

record hook_state =
  valueRef :: jsval
  prevModelRef :: "string option"
  nextAddr :: nat





definition isApiKey :: "hook_render \<Rightarrow> bool" where
  "isApiKey r =
     (subBlockId r = ''apiKey'' \<or> includes_str (toLowerCase (subBlockId r)) ''apikey'')"

definition isProviderBasedBlock :: "hook_render \<Rightarrow> bool" where
  "isProviderBasedBlock r =
     (blockType r = Some ''agent'' \<or> blockType r = Some ''router'' \<or>
      blockType r = Some ''evaluator'')"

definition modelValue :: "hook_render \<Rightarrow> string option" where
  "modelValue r = (if isProviderBasedBlock r then modelSubBlockValue r else None)"

text \<open>The copy \<open>setValue\<close> passes to the SubBlock store, or the error thrown in making it.\<close>

definition valueCopy :: "nat \<Rightarrow> jsval \<Rightarrow> js_error + (jsval \<times> nat)" where
  "valueCopy n newValue =
     (if newValue = JNull then Inr (JNull, n)
      else if typeof_object newValue then jsonClone n newValue
      else Inr (newValue, n))"

text \<open>
  The setter the hook returns: the refs after the call, and either the store calls it made
  or the error it threw. The cache is assigned first and the copy is made before any store
  is called, so a call that throws has changed the cache and has called no store.
\<close>

definition setValue ::
  "number_printer \<Rightarrow> provider_fn \<Rightarrow> SubBlockStore \<Rightarrow> hook_render \<Rightarrow> hook_state \<Rightarrow> jsval
     \<Rightarrow> hook_state \<times> (js_error + store_call list)" where
  "setValue numberToString getProviderFromModel subBlockStore r h newValue =
     (if \<not> isEqual (valueRef h) newValue then
        (case valueCopy (nextAddr h) newValue of
           Inl e \<Rightarrow> (h\<lparr>valueRef := newValue\<rparr>, Inl e)
         | Inr (copy, n) \<Rightarrow>
             (h\<lparr>valueRef := newValue, nextAddr := n\<rparr>,
              Inr
                ((if isApiKey r \<and> truthy_str (blockType r)
                  then storeApiKeyValue numberToString getProviderFromModel subBlockStore
                         (blockId r) (blockType r) (modelValue r) newValue (storeValue r)
                  else []) @
                 [SetValue (blockId r) (subBlockId r) copy] @
                 (if triggerWorkflowUpdate r then [TriggerUpdate] else []))))
      else (h, Inr []))"

text \<open>The effect that initialises the cache on the first render.\<close>

definition initValueRef :: "hook_render \<Rightarrow> hook_state \<Rightarrow> hook_state" where
  "initValueRef r h =
     h\<lparr>valueRef := (if storeValue r \<noteq> JUndefined then storeValue r else initialValue r)\<rparr>"

text \<open>The effect that looks for a stored API key when the component mounts.\<close>

definition autoFillOnMount :: "provider_fn \<Rightarrow> SubBlockStore \<Rightarrow> hook_render \<Rightarrow> store_call list" where
  "autoFillOnMount getProviderFromModel subBlockStore r =
     (if \<not> isAutoFillEnvVarsEnabled r then []
      else if \<not> isApiKey r then []
      else if isProviderBasedBlock r
      then handleProviderBasedApiKey getProviderFromModel subBlockStore (blockId r) (subBlockId r)
             (modelValue r) (storeValue r)
      else handleStandardBlockApiKey subBlockStore (blockId r) (subBlockId r) (blockType r)
             (storeValue r))"

text \<open>The effect that monitors model changes in provider-based blocks.\<close>

definition monitorModelChange ::
  "provider_fn \<Rightarrow> SubBlockStore \<Rightarrow> hook_render \<Rightarrow> hook_state \<Rightarrow> hook_state \<times> store_call list" where
  "monitorModelChange getProviderFromModel subBlockStore r h =
     (if \<not> isApiKey r \<or> \<not> isProviderBasedBlock r then (h, [])
      else if modelValue r \<noteq> prevModelRef h then
        (h\<lparr>prevModelRef := modelValue r\<rparr>,
         (case modelValue r of
            None \<Rightarrow> []
          | Some model \<Rightarrow>
              if model = [] then []
              else
                (case getProviderFromModel model of
                   None \<Rightarrow> []
                 | Some provider \<Rightarrow>
                     if provider = [] \<or> provider = ''ollama'' then []
                     else
                       (case resolveToolParamValue subBlockStore provider ''apiKey'' (blockId r) of
                          None \<Rightarrow> [SetValue (blockId r) (subBlockId r) (JStr [])]
                        | Some savedValue \<Rightarrow>
                            if savedValue \<noteq> [] \<and> isAutoFillEnvVarsEnabled r
                            then [SetValue (blockId r) (subBlockId r) (JStr savedValue)]
                            else [SetValue (blockId r) (subBlockId r) (JStr [])]))))
      else (h, []))"

text \<open>The effect that updates the cache when the store value changes.\<close>

definition syncValueRef :: "hook_render \<Rightarrow> hook_state \<Rightarrow> hook_state" where
  "syncValueRef r h =
     (if \<not> isEqual (valueRef h) (storeValue r)
      then h\<lparr>valueRef := (if storeValue r \<noteq> JUndefined then storeValue r else initialValue r)\<rparr>
      else h)"

text \<open>The value the hook returns to its caller: \<open>valueRef.current\<close>.\<close>

definition currentValue :: "hook_state \<Rightarrow> jsval" where
  "currentValue h = valueRef h"

section \<open>Example data\<close>






text \<open>
  A provider table, a SubBlock store with two stored keys, and renders and hook states of
  an agent block, a tool block and a table field, used to run the hook on concrete input.
\<close>

text \<open>
  A printer of finite numbers that prints the integer part; it stands for the runtime's
  where an example needs one.
\<close>

definition demo_numberToString :: number_printer where
  "demo_numberToString q = showBigInt \<lfloor>q\<rfloor>"

definition demo_getProviderFromModel :: provider_fn where
  "demo_getProviderFromModel m =
     (if m = ''gpt-4o'' then Some ''openai''
      else if m = ''llama3'' then Some ''ollama''
      else None)"

definition demo_subBlockStore :: SubBlockStore where
  "demo_subBlockStore =
     \<lparr> getValue = (\<lambda>b s. JNull),
       resolveToolParamValue = (\<lambda>scope p instanceId.
         if scope = ''openai'' \<and> p = ''apiKey'' then Some ''sk-openai''
         else if scope = ''exa'' \<and> p = ''apiKey'' then Some ''exa-key''
         else None),
       isParamCleared = (\<lambda>b p. b = ''b1'' \<and> p = ''apiKey'') \<rparr>"

definition demo_render :: hook_render where
  "demo_render =
     \<lparr> blockId = ''b1'', subBlockId = ''apiKey'', triggerWorkflowUpdate = True,
       blockType = Some ''agent'', initialValue = JNull, storeValue = JStr ''sk-typed'',
       isAutoFillEnvVarsEnabled = True, modelSubBlockValue = Some ''gpt-4o'' \<rparr>"

definition demo_state :: hook_state where
  "demo_state = \<lparr> valueRef = JStr ''sk-typed'', prevModelRef = None, nextAddr = 10 \<rparr>"

definition demo_render_ollama :: hook_render where
  "demo_render_ollama = demo_render \<lparr> modelSubBlockValue := Some ''llama3'' \<rparr>"



definition demo_render_exa :: hook_render where
  "demo_render_exa =
     \<lparr> blockId = ''b2'', subBlockId = ''apiKey'', triggerWorkflowUpdate = False,
       blockType = Some ''exa'', initialValue = JNull, storeValue = JStr [],
       isAutoFillEnvVarsEnabled = True, modelSubBlockValue = None \<rparr>"

definition demo_render_table :: hook_render where
  "demo_render_table =
     \<lparr> blockId = ''b3'', subBlockId = ''headers'', triggerWorkflowUpdate = True,
       blockType = Some ''api'', initialValue = JNull, storeValue = JNull,
       isAutoFillEnvVarsEnabled = True, modelSubBlockValue = None \<rparr>"

definition demo_object :: jsval where
  "demo_object = JObj 3 [(''key'', JStr ''Accept''), (''tags'', JArr 4 [JStr ''a'', JNull])]"

definition demo_object_copy :: jsval where
  "demo_object_copy = JObj 10 [(''key'', JStr ''Accept''), (''tags'', JArr 11 [JStr ''a'', JNull])]"

definition demo_nan_array :: jsval where
  "demo_nan_array = JArr 3 [JNum NaN]"

definition demo_nan_copy :: jsval where
  "demo_nan_copy = JArr 10 [JNull]"


definition demo_state_null :: hook_state where
  "demo_state_null = \<lparr> valueRef = JNull, prevModelRef = None, nextAddr = 10 \<rparr>"

definition demo_state_object :: hook_state where
  "demo_state_object = \<lparr> valueRef = demo_object, prevModelRef = None, nextAddr = 12 \<rparr>"

definition demo_render_synced :: hook_render where
  "demo_render_synced = demo_render_table \<lparr> storeValue := demo_object_copy \<rparr>"


section \<open>Properties of the string functions\<close>








section \<open>Properties of values\<close>

text \<open>
  Deep equality is reflexive on a value whose objects have distinct keys.
\<close>

lemma isEqual_refl_aux:
  "allocated n v \<Longrightarrow> isEqual v v"
  "allocatedElems n xs \<Longrightarrow> equalArrays xs xs"
  "allocatedProps n ps \<Longrightarrow> \<forall>qs. distinct (map fst qs) \<and> set ps \<subseteq> set qs \<longrightarrow> equalObjects ps qs"
  by (induction v and xs and ps rule: addresses_addressesElems_addressesProps.induct) auto

text \<open>
  \<open>JSON.stringify\<close> accepts exactly the values without a BigInt inside, and a value
  whose string is blank is one of them.
\<close>

lemma jsonClone_succeeds_aux:
  "\<forall>n. (\<exists>c m. jsonClone n v = Inr (c, m)) = serialisable v"
  "\<forall>n. (\<exists>ys m. jsonCloneElems n xs = Inr (ys, m)) = serialisableElems xs"
  "\<forall>n. (\<exists>qs m. jsonCloneProps n ps = Inr (qs, m)) = serialisableProps ps"
proof (induction v and xs and ps rule: addresses_addressesElems_addressesProps.induct)
  case (1 a xs)
  show ?case
  proof
    fix n
    from 1 have "(\<exists>ys m. jsonCloneElems (Suc n) xs = Inr (ys, m)) = serialisableElems xs"
      by blast
    then show "(\<exists>c m. jsonClone n (JArr a xs) = Inr (c, m)) = serialisable (JArr a xs)"
      by (cases "jsonCloneElems (Suc n) xs") auto
  qed
next
  case (2 a ps)
  show ?case
  proof
    fix n
    from 2 have "(\<exists>qs m. jsonCloneProps (Suc n) ps = Inr (qs, m)) = serialisableProps ps"
      by blast
    then show "(\<exists>c m. jsonClone n (JObj a ps) = Inr (c, m)) = serialisable (JObj a ps)"
      by (cases "jsonCloneProps (Suc n) ps") auto
  qed
next
  case (5 x xs)
  show ?case
  proof
    fix n
    show "(\<exists>ys m. jsonCloneElems n (x # xs) = Inr (ys, m)) = serialisableElems (x # xs)"
    proof (cases "jsonClone n x")
      case (Inl e)
      with 5(1) have "\<not> serialisable x" by (metis Inl_Inr_False)
      with Inl show ?thesis by simp
    next
      case (Inr cm)
      obtain c m where cm: "cm = (c, m)" by (cases cm)
      from Inr cm 5(1) have sx: "serialisable x" by blast
      from 5(2) have "(\<exists>ys l. jsonCloneElems m xs = Inr (ys, l)) = serialisableElems xs" by blast
      with Inr cm sx show ?thesis by (auto split: sum.splits prod.splits)
    qed
  qed
next
  case (7 k v ps)
  show ?case
  proof
    fix n
    show "(\<exists>qs m. jsonCloneProps n ((k, v) # ps) = Inr (qs, m)) = serialisableProps ((k, v) # ps)"
    proof (cases "v = JUndefined")
      case True
      with 7(2) show ?thesis by simp
    next
      case False
      show ?thesis
      proof (cases "jsonClone n v")
        case (Inl e)
        with 7(1) have "\<not> serialisable v" by (metis Inl_Inr_False)
        with Inl False show ?thesis by simp
      next
        case (Inr cm)
        obtain c m where cm: "cm = (c, m)" by (cases cm)
        from Inr cm 7(1) have sx: "serialisable v" by blast
        from 7(2) have "(\<exists>qs l. jsonCloneProps m ps = Inr (qs, l)) = serialisableProps ps" by blast
        with Inr cm sx False show ?thesis by (auto split: sum.splits prod.splits)
      qed
    qed
  qed
qed (auto split: jsnum.splits)


text \<open>
  The copy that \<open>JSON.parse\<close> returns lives at addresses from the first free one on.
\<close>

lemma jsonClone_fresh_aux:
  "\<forall>n c m. jsonClone n v = Inr (c, m) \<longrightarrow> n \<le> m \<and> addresses c \<subseteq> {n ..< m}"
  "\<forall>n ys m. jsonCloneElems n xs = Inr (ys, m) \<longrightarrow> n \<le> m \<and> addressesElems ys \<subseteq> {n ..< m}"
  "\<forall>n qs m. jsonCloneProps n ps = Inr (qs, m) \<longrightarrow> n \<le> m \<and> addressesProps qs \<subseteq> {n ..< m}"
proof (induction v and xs and ps rule: addresses_addressesElems_addressesProps.induct)
  case (1 a xs)
  show ?case
  proof (intro allI impI)
    fix n c m
    assume "jsonClone n (JArr a xs) = Inr (c, m)"
    then obtain ys where ys: "jsonCloneElems (Suc n) xs = Inr (ys, m)" and c: "c = JArr n ys"
      by (auto split: sum.splits prod.splits)
    from 1 ys have "Suc n \<le> m \<and> addressesElems ys \<subseteq> {Suc n ..< m}" by blast
    with c show "n \<le> m \<and> addresses c \<subseteq> {n ..< m}" by auto
  qed
next
  case (2 a ps)
  show ?case
  proof (intro allI impI)
    fix n c m
    assume "jsonClone n (JObj a ps) = Inr (c, m)"
    then obtain qs where qs: "jsonCloneProps (Suc n) ps = Inr (qs, m)" and c: "c = JObj n qs"
      by (auto split: sum.splits prod.splits)
    from 2 qs have "Suc n \<le> m \<and> addressesProps qs \<subseteq> {Suc n ..< m}" by blast
    with c show "n \<le> m \<and> addresses c \<subseteq> {n ..< m}" by auto
  qed
next
  case (5 x xs)
  show ?case
  proof (intro allI impI)
    fix n zs l
    assume "jsonCloneElems n (x # xs) = Inr (zs, l)"
    then obtain y m ys where y: "jsonClone n x = Inr (y, m)"
      and ys: "jsonCloneElems m xs = Inr (ys, l)" and zs: "zs = y # ys"
      by (auto split: sum.splits prod.splits)
    from 5(1) y have "n \<le> m \<and> addresses y \<subseteq> {n ..< m}" by blast
    moreover from 5(2) ys have "m \<le> l \<and> addressesElems ys \<subseteq> {m ..< l}" by blast
    ultimately show "n \<le> l \<and> addressesElems zs \<subseteq> {n ..< l}"
      using zs by auto
  qed
next
  case (7 k v ps)
  show ?case
  proof (intro allI impI)
    fix n zs l
    assume z: "jsonCloneProps n ((k, v) # ps) = Inr (zs, l)"
    show "n \<le> l \<and> addressesProps zs \<subseteq> {n ..< l}"
    proof (cases "v = JUndefined")
      case True
      with z 7(2) show ?thesis by simp
    next
      case False
      with z obtain w m qs where w: "jsonClone n v = Inr (w, m)"
        and qs: "jsonCloneProps m ps = Inr (qs, l)" and zs: "zs = (k, w) # qs"
        by (auto split: sum.splits prod.splits)
      from 7(1) w have "n \<le> m \<and> addresses w \<subseteq> {n ..< m}" by blast
      moreover from 7(2) qs have "m \<le> l \<and> addressesProps qs \<subseteq> {m ..< l}" by blast
      ultimately show ?thesis using zs by auto
    qed
  qed
qed (auto split: jsnum.splits)

lemma allocated_addresses_aux:
  "allocated n v \<Longrightarrow> addresses v \<subseteq> {..< n}"
  "allocatedElems n xs \<Longrightarrow> addressesElems xs \<subseteq> {..< n}"
  "allocatedProps n ps \<Longrightarrow> addressesProps ps \<subseteq> {..< n}"
  by (induction v and xs and ps rule: addresses_addressesElems_addressesProps.induct) auto

lemma jsonClone_addresses_disjoint:
  assumes "allocated n v" and "jsonClone n v = Inr (c, m)"
  shows "addresses c \<inter> addresses v = {}"
proof -
  have "addresses c \<subseteq> {n ..< m}"
    using jsonClone_fresh_aux(1) assms(2) by blast
  moreover have "addresses v \<subseteq> {..< n}"
    using assms(1) by (rule allocated_addresses_aux(1))
  ultimately show ?thesis by fastforce
qed

lemma valueCopy_addresses_disjoint:
  assumes "allocated n v" and "valueCopy n v = Inr (c, m)"
  shows "addresses c \<inter> addresses v = {}"
proof (cases "typeof_object v \<and> v \<noteq> JNull")
  case True
  with assms(2) have "jsonClone n v = Inr (c, m)" by (simp add: valueCopy_def)
  with assms(1) show ?thesis by (rule jsonClone_addresses_disjoint)
next
  case False
  then have "addresses v = {}" by (cases v) auto
  then show ?thesis by simp
qed

lemma valueCopy_not_same_reference:
  assumes "allocated n v" and "typeof_object v" and "v \<noteq> JNull"
    and "valueCopy n v = Inr (c, m)"
  shows "\<not> strictEquals c v"
  using assms by (cases v) (auto simp: valueCopy_def split: sum.splits prod.splits)



text \<open>
  The JSON round trip of a value that JSON represents without loss is deep-equal to it.
\<close>

lemma jsonClean_serialisable_aux:
  "jsonClean v \<Longrightarrow> serialisable v"
  "jsonCleanElems xs \<Longrightarrow> serialisableElems xs"
  "jsonCleanProps ps \<Longrightarrow> serialisableProps ps"
  by (induction v and xs and ps rule: addresses_addressesElems_addressesProps.induct) auto

lemma equalObjects_lookup:
  "(\<And>k v. (k, v) \<in> set ps \<Longrightarrow> \<exists>w. map_of qs k = Some w \<and> isEqual v w) \<Longrightarrow> equalObjects ps qs"
proof (induction ps)
  case Nil
  show ?case by simp
next
  case (Cons kv ps)
  obtain k v where kv: "kv = (k, v)" by (cases kv)
  from Cons.prems [of k v] kv obtain w where "map_of qs k = Some w" "isEqual v w" by auto
  moreover have "equalObjects ps qs"
    using Cons.IH Cons.prems by simp
  ultimately show ?case by (simp add: kv)
qed

lemma jsonCloneProps_step:
  assumes "jsonClean v" and "jsonCloneProps n ((k, v) # ps) = Inr (zs, l)"
  shows "\<exists>w m qs. jsonClone n v = Inr (w, m) \<and> jsonCloneProps m ps = Inr (qs, l) \<and>
           zs = (k, w) # qs"
proof -
  from assms(1) have "v \<noteq> JUndefined" by auto
  with assms(2) show ?thesis
    by (auto split: sum.splits prod.splits)
qed

lemma jsonCloneProps_keys:
  "jsonCleanProps ps \<Longrightarrow> jsonCloneProps n ps = Inr (qs, l) \<Longrightarrow> map fst qs = map fst ps"
proof (induction ps arbitrary: n qs)
  case Nil
  then show ?case by simp
next
  case (Cons kv ps)
  obtain k v where kv: "kv = (k, v)" by (cases kv)
  from Cons.prems kv have cl: "jsonClean v" "jsonCleanProps ps" by simp_all
  from Cons.prems(2) kv have "jsonCloneProps n ((k, v) # ps) = Inr (qs, l)" by simp
  with cl(1) obtain w m qs' where "jsonCloneProps m ps = Inr (qs', l)" "qs = (k, w) # qs'"
    using jsonCloneProps_step by blast
  with Cons.IH [OF cl(2)] kv show ?case by simp
qed

lemma jsonCloneProps_lookup:
  "jsonCleanProps ps \<Longrightarrow> distinct (map fst ps) \<Longrightarrow> (k, v) \<in> set ps \<Longrightarrow>
   jsonCloneProps n ps = Inr (qs, l) \<Longrightarrow>
     \<exists>m c m'. jsonClone m v = Inr (c, m') \<and> map_of qs k = Some c"
proof (induction ps arbitrary: n qs)
  case Nil
  then show ?case by simp
next
  case (Cons kv ps)
  obtain k' v' where kv: "kv = (k', v')" by (cases kv)
  from Cons.prems kv have cl: "jsonClean v'" "jsonCleanProps ps" by simp_all
  from Cons.prems(4) kv have "jsonCloneProps n ((k', v') # ps) = Inr (qs, l)" by simp
  with cl(1) obtain w m qs' where w: "jsonClone n v' = Inr (w, m)"
    and qs': "jsonCloneProps m ps = Inr (qs', l)" and qs: "qs = (k', w) # qs'"
    using jsonCloneProps_step by blast
  show ?case
  proof (cases "k = k'")
    case True
    with Cons.prems kv have "v = v'"
      by (auto simp: rev_image_eqI)
    with True w qs show ?thesis by auto
  next
    case False
    with Cons.prems kv have "(k, v) \<in> set ps" "distinct (map fst ps)" by auto
    from Cons.IH [OF cl(2) this(2) this(1) qs']
    obtain m1 c m2 where "jsonClone m1 v = Inr (c, m2)" "map_of qs' k = Some c" by blast
    with False qs show ?thesis by auto
  qed
qed

lemma jsonClone_isEqual_aux:
  "jsonClean v \<Longrightarrow> allocated k v \<Longrightarrow> \<forall>n c m. jsonClone n v = Inr (c, m) \<longrightarrow> isEqual v c"
  "jsonCleanElems xs \<Longrightarrow> allocatedElems k xs \<Longrightarrow>
     \<forall>n ys m. jsonCloneElems n xs = Inr (ys, m) \<longrightarrow> equalArrays xs ys"
  "jsonCleanProps ps \<Longrightarrow> allocatedProps k ps \<Longrightarrow>
     \<forall>key v. (key, v) \<in> set ps \<longrightarrow> (\<forall>n c m. jsonClone n v = Inr (c, m) \<longrightarrow> isEqual v c)"
proof (induction v and xs and ps rule: addresses_addressesElems_addressesProps.induct)
  case (1 a xs)
  then show ?case by (auto split: sum.splits prod.splits)
next
  case (2 a ps)
  show ?case
  proof (intro allI impI)
    fix n c m
    assume "jsonClone n (JObj a ps) = Inr (c, m)"
    then obtain qs where qs: "jsonCloneProps (Suc n) ps = Inr (qs, m)" and c: "c = JObj n qs"
      by (auto split: sum.splits prod.splits)
    from 2 have cl: "jsonCleanProps ps" and al: "allocatedProps k ps" and d: "distinct (map fst ps)"
      by simp_all
    have len: "length ps = length qs"
      using jsonCloneProps_keys [OF cl qs] by (metis length_map)
    have "equalObjects ps qs"
    proof (rule equalObjects_lookup)
      fix key v assume mem: "(key, v) \<in> set ps"
      from jsonCloneProps_lookup [OF cl d mem qs]
      obtain m1 w m2 where "jsonClone m1 v = Inr (w, m2)" "map_of qs key = Some w" by blast
      moreover from 2(1) [OF cl al] mem this(1) have "isEqual v w" by blast
      ultimately show "\<exists>w. map_of qs key = Some w \<and> isEqual v w" by blast
    qed
    with len c show "isEqual (JObj a ps) c" by simp
  qed
next
  case (5 x xs)
  then show ?case by (auto split: sum.splits prod.splits)
qed (auto split: jsnum.splits)

lemma valueCopy_isEqual:
  assumes "jsonClean v" and "allocated n v"
  shows "\<exists>c m. valueCopy n v = Inr (c, m) \<and> isEqual v c"
proof (cases "typeof_object v \<and> v \<noteq> JNull")
  case True
  from assms(1) have "serialisable v" by (rule jsonClean_serialisable_aux(1))
  then obtain c m where c: "jsonClone n v = Inr (c, m)"
    using jsonClone_succeeds_aux(1) by blast
  with assms have "isEqual v c" using jsonClone_isEqual_aux(1) by blast
  with True c show ?thesis by (simp add: valueCopy_def)
next
  case False
  moreover have "isEqual v v" using assms(2) by (rule isEqual_refl_aux(1))
  ultimately show ?thesis by (auto simp: valueCopy_def)
qed

lemma strictEquals_empty_falsy: "strictEquals w (JStr []) \<Longrightarrow> \<not> truthy w"
  by (cases w) (auto split: jsval.splits)

section \<open>The setter\<close>

lemma setValue_changed:
  "\<not> isEqual (valueRef h) v \<Longrightarrow> valueCopy (nextAddr h) v = Inr (copy, n) \<Longrightarrow>
   setValue p gp S r h v =
     (h\<lparr>valueRef := v, nextAddr := n\<rparr>,
      Inr ((if isApiKey r \<and> truthy_str (blockType r)
            then storeApiKeyValue p gp S (blockId r) (blockType r) (modelValue r) v (storeValue r)
            else []) @
           [SetValue (blockId r) (subBlockId r) copy] @
           (if triggerWorkflowUpdate r then [TriggerUpdate] else [])))"
  by (simp add: setValue_def)

text \<open>
  C9. A call \<open>setValue(v)\<close> with \<open>v\<close> deep-equal to the cached value does nothing: the
  refs stay as they are, nothing is thrown and no call reaches the SubBlock store, the
  credential storage, the cleared flags or the Workflow store, also when
  \<open>triggerWorkflowUpdate\<close> is set.
\<close>

theorem setValue_deep_equal_noop:
  "isEqual (valueRef h) v \<Longrightarrow> setValue numberToString getProviderFromModel S r h v = (h, Inr [])"
  by (simp add: setValue_def)

theorem setValue_deep_equal_noop_witness:
  "isEqual (valueRef demo_state_object) demo_object_copy \<and>
   \<not> strictEquals (valueRef demo_state_object) demo_object_copy \<and>
   triggerWorkflowUpdate demo_render_table \<and>
   setValue demo_numberToString demo_getProviderFromModel demo_subBlockStore demo_render_table
     demo_state_object demo_object_copy = (demo_state_object, Inr [])"
proof -
  have a: "isEqual (valueRef demo_state_object) demo_object_copy"
    by (simp add: demo_state_object_def demo_object_def demo_object_copy_def)
  have b: "\<not> strictEquals (valueRef demo_state_object) demo_object_copy"
    by (simp add: demo_state_object_def demo_object_def demo_object_copy_def)
  have c: "triggerWorkflowUpdate demo_render_table"
    by (simp add: demo_render_table_def)
  from setValue_deep_equal_noop [OF a, of demo_numberToString demo_getProviderFromModel
      demo_subBlockStore demo_render_table] a b c
  show ?thesis by simp
qed

text \<open>
  C5, amended. On a field that is not an API-key field, right after \<open>setValue(v)\<close> the
  value the hook holds as current is deep-equal to \<open>v\<close>, for every \<open>v\<close>. When the call
  changes the cache and the copy can be made, the only store calls are the write of the
  copy to the SubBlock store and the optional workflow update; the copy shares no array or
  object with \<open>v\<close>, and for an array or object \<open>v\<close> it is the JSON round trip of \<open>v\<close>,
  a different reference. For a \<open>v\<close> that JSON represents without loss (no
  \<open>undefined\<close>, \<open>NaN\<close>, infinity or BigInt inside) the copy is deep-equal to \<open>v\<close>, and
  after the cache is synchronised against a store that hands the copy back the current
  value is still \<open>v\<close>.
\<close>

theorem setValue_round_trip:
  assumes "\<not> isApiKey r" and "allocated (nextAddr h) v"
  shows
    "isEqual (currentValue (fst (setValue numberToString getProviderFromModel S r h v))) v \<and>
     (\<forall>copy n. \<not> isEqual (valueRef h) v \<and> valueCopy (nextAddr h) v = Inr (copy, n) \<longrightarrow>
        snd (setValue numberToString getProviderFromModel S r h v) =
          Inr ([SetValue (blockId r) (subBlockId r) copy] @
               (if triggerWorkflowUpdate r then [TriggerUpdate] else [])) \<and>
        addresses copy \<inter> addresses v = {} \<and>
        (typeof_object v \<and> v \<noteq> JNull \<longrightarrow>
           jsonClone (nextAddr h) v = Inr (copy, n) \<and> \<not> strictEquals copy v)) \<and>
     (jsonClean v \<longrightarrow>
        (\<exists>copy n. valueCopy (nextAddr h) v = Inr (copy, n) \<and> isEqual v copy \<and>
           (\<not> isEqual (valueRef h) v \<longrightarrow>
              currentValue (syncValueRef (r\<lparr>storeValue := copy\<rparr>)
                (fst (setValue numberToString getProviderFromModel S r h v))) = v)))"
proof (intro conjI allI impI)
  show "isEqual (currentValue (fst (setValue numberToString getProviderFromModel S r h v))) v"
  proof (cases "isEqual (valueRef h) v")
    case True
    then show ?thesis by (simp add: setValue_def currentValue_def)
  next
    case False
    moreover have "isEqual v v" using assms(2) by (rule isEqual_refl_aux(1))
    ultimately show ?thesis
      by (simp add: setValue_def currentValue_def split: sum.splits prod.splits)
  qed
next
  fix copy n
  assume a: "\<not> isEqual (valueRef h) v \<and> valueCopy (nextAddr h) v = Inr (copy, n)"
  with assms(1) show "snd (setValue numberToString getProviderFromModel S r h v) =
          Inr ([SetValue (blockId r) (subBlockId r) copy] @
               (if triggerWorkflowUpdate r then [TriggerUpdate] else []))"
    by (simp add: setValue_changed)
  from a assms(2) show "addresses copy \<inter> addresses v = {}"
    using valueCopy_addresses_disjoint by blast
next
  fix copy n
  assume a: "\<not> isEqual (valueRef h) v \<and> valueCopy (nextAddr h) v = Inr (copy, n)"
    and o: "typeof_object v \<and> v \<noteq> JNull"
  then show "jsonClone (nextAddr h) v = Inr (copy, n)"
    by (simp add: valueCopy_def)
  from a o assms(2) show "\<not> strictEquals copy v"
    using valueCopy_not_same_reference by blast
next
  assume cl: "jsonClean v"
  with assms(2) obtain copy n where c: "valueCopy (nextAddr h) v = Inr (copy, n)"
    and e: "isEqual v copy"
    using valueCopy_isEqual by blast
  have "\<not> isEqual (valueRef h) v \<longrightarrow>
      currentValue (syncValueRef (r\<lparr>storeValue := copy\<rparr>)
        (fst (setValue numberToString getProviderFromModel S r h v))) = v"
  proof
    assume "\<not> isEqual (valueRef h) v"
    with c have "fst (setValue numberToString getProviderFromModel S r h v) =
        h\<lparr>valueRef := v, nextAddr := n\<rparr>"
      by (simp add: setValue_changed)
    with e show "currentValue (syncValueRef (r\<lparr>storeValue := copy\<rparr>)
        (fst (setValue numberToString getProviderFromModel S r h v))) = v"
      by (simp add: syncValueRef_def currentValue_def)
  qed
  with c e show "\<exists>copy n. valueCopy (nextAddr h) v = Inr (copy, n) \<and> isEqual v copy \<and>
           (\<not> isEqual (valueRef h) v \<longrightarrow>
              currentValue (syncValueRef (r\<lparr>storeValue := copy\<rparr>)
                (fst (setValue numberToString getProviderFromModel S r h v))) = v)"
    by blast
qed

theorem setValue_round_trip_witness:
  "\<not> isApiKey demo_render_table \<and> allocated (nextAddr demo_state_null) demo_object \<and>
   jsonClean demo_object \<and>
   isEqual (currentValue (fst (setValue demo_numberToString demo_getProviderFromModel
      demo_subBlockStore demo_render_table demo_state_null demo_object))) demo_object \<and>
   snd (setValue demo_numberToString demo_getProviderFromModel demo_subBlockStore
      demo_render_table demo_state_null demo_object) =
     Inr [SetValue ''b3'' ''headers'' demo_object_copy, TriggerUpdate] \<and>
   \<not> strictEquals demo_object_copy demo_object \<and>
   isEqual demo_object demo_object_copy \<and>
   currentValue (syncValueRef (demo_render_table\<lparr>storeValue := demo_object_copy\<rparr>)
     (fst (setValue demo_numberToString demo_getProviderFromModel demo_subBlockStore
        demo_render_table demo_state_null demo_object))) = demo_object"
proof -
  have a: "\<not> isApiKey demo_render_table"
    by (simp add: isApiKey_def demo_render_table_def toLowerCase_def toLowerCase_char_def
        startsWith_def Let_def char_of_def bit_Suc_0_iff)
  have b: "allocated (nextAddr demo_state_null) demo_object"
    by (simp add: demo_state_null_def demo_object_def)
  have c: "\<not> isEqual (valueRef demo_state_null) demo_object"
    by (simp add: demo_state_null_def demo_object_def)
  have d: "valueCopy (nextAddr demo_state_null) demo_object = Inr (demo_object_copy, 12)"
    by (simp add: valueCopy_def demo_state_null_def demo_object_def demo_object_copy_def)
  have e: "typeof_object demo_object \<and> demo_object \<noteq> JNull"
    by (simp add: demo_object_def)
  have f: "jsonClean demo_object"
    by (simp add: demo_object_def)
  note T = setValue_round_trip [OF a b, of demo_numberToString demo_getProviderFromModel
      demo_subBlockStore]
  from T have t1: "isEqual (currentValue (fst (setValue demo_numberToString
      demo_getProviderFromModel demo_subBlockStore demo_render_table demo_state_null
      demo_object))) demo_object" by blast
  from T c d e have t2: "snd (setValue demo_numberToString demo_getProviderFromModel
      demo_subBlockStore demo_render_table demo_state_null demo_object) =
      Inr ([SetValue (blockId demo_render_table) (subBlockId demo_render_table) demo_object_copy] @
           (if triggerWorkflowUpdate demo_render_table then [TriggerUpdate] else []))"
    and t3: "\<not> strictEquals demo_object_copy demo_object"
    by blast+
  from T f c d have t4: "isEqual demo_object demo_object_copy \<and>
      currentValue (syncValueRef (demo_render_table\<lparr>storeValue := demo_object_copy\<rparr>)
        (fst (setValue demo_numberToString demo_getProviderFromModel demo_subBlockStore
           demo_render_table demo_state_null demo_object))) = demo_object"
    by auto
  from t2 have t2': "snd (setValue demo_numberToString demo_getProviderFromModel
      demo_subBlockStore demo_render_table demo_state_null demo_object) =
      Inr [SetValue ''b3'' ''headers'' demo_object_copy, TriggerUpdate]"
    by (simp add: demo_render_table_def)
  from a b f t1 t2' t3 t4 show ?thesis by blast
qed

text \<open>
  The claim as stated, for every value, fails for the array \<open>[NaN]\<close>: the copy written
  to the store is \<open>[null]\<close>, and once the cache is synchronised against it the current
  value is \<open>[null]\<close>, which is not deep-equal to \<open>[NaN]\<close>.
\<close>

theorem setValue_round_trip_counterexample:
  "\<not> isApiKey demo_render_table \<and> allocated (nextAddr demo_state_null) demo_nan_array \<and>
   setValue demo_numberToString demo_getProviderFromModel demo_subBlockStore demo_render_table
     demo_state_null demo_nan_array =
     (\<lparr>valueRef = demo_nan_array, prevModelRef = None, nextAddr = 11\<rparr>,
      Inr [SetValue ''b3'' ''headers'' demo_nan_copy, TriggerUpdate]) \<and>
   currentValue (syncValueRef (demo_render_table\<lparr>storeValue := demo_nan_copy\<rparr>)
     \<lparr>valueRef = demo_nan_array, prevModelRef = None, nextAddr = 11\<rparr>) = demo_nan_copy \<and>
   \<not> isEqual demo_nan_copy demo_nan_array"
  by (simp add: isApiKey_def demo_render_table_def toLowerCase_def toLowerCase_char_def
      startsWith_def Let_def char_of_def bit_Suc_0_iff demo_state_null_def demo_nan_array_def
      demo_nan_copy_def setValue_def valueCopy_def syncValueRef_def currentValue_def
      truthy_str_def)







section \<open>The effects\<close>

text \<open>
  C7. When the store value is deep-equal to the cached value, the synchronisation effect
  leaves the hook state as it is, so the cache keeps its own reference; the cache is
  rewritten only when the store value is not deep-equal to it.
\<close>

theorem syncValueRef_keeps_cache:
  "(isEqual (valueRef h) (storeValue r) \<longrightarrow> syncValueRef r h = h) \<and>
   (valueRef (syncValueRef r h) \<noteq> valueRef h \<longrightarrow> \<not> isEqual (valueRef h) (storeValue r))"
  by (auto simp: syncValueRef_def)

theorem syncValueRef_keeps_cache_witness:
  "isEqual (valueRef demo_state_object) (storeValue demo_render_synced) \<and>
   \<not> strictEquals (valueRef demo_state_object) (storeValue demo_render_synced) \<and>
   syncValueRef demo_render_synced demo_state_object = demo_state_object \<and>
   valueRef (syncValueRef demo_render_synced demo_state_object) = demo_object"
proof -
  have a: "isEqual (valueRef demo_state_object) (storeValue demo_render_synced)"
    by (simp add: demo_state_object_def demo_render_synced_def demo_render_table_def
        demo_object_def demo_object_copy_def)
  have b: "\<not> strictEquals (valueRef demo_state_object) (storeValue demo_render_synced)"
    by (simp add: demo_state_object_def demo_render_synced_def demo_render_table_def
        demo_object_def demo_object_copy_def)
  from syncValueRef_keeps_cache [of demo_state_object demo_render_synced] a
  have c: "syncValueRef demo_render_synced demo_state_object = demo_state_object" by blast
  then have "valueRef (syncValueRef demo_render_synced demo_state_object) = demo_object"
    by (simp add: demo_state_object_def)
  with a b c show ?thesis by blast
qed

text \<open>
  C1, amended. On an API-key field of an agent, router or evaluator block, when the
  selected model changes to a non-empty model whose provider is resolved and is not
  \<open>ollama\<close>: the field is set to the stored key of that provider if there is a non-empty
  one and auto-fill is enabled, and to the empty string otherwise. When the model is the
  empty string, or its provider is not resolved or is \<open>ollama\<close>, the field is not
  written. In each case the effect records the new model as the last one seen and changes
  nothing else of the hook state.
\<close>

theorem monitorModelChange_calls:
  assumes "isApiKey r" and "isProviderBasedBlock r"
    and "modelValue r = Some m" and "modelValue r \<noteq> prevModelRef h"
  shows
    "(m \<noteq> [] \<and> getProviderFromModel m = Some p \<and> p \<noteq> [] \<and> p \<noteq> ''ollama'' \<and>
        resolveToolParamValue S p ''apiKey'' (blockId r) = Some k \<and> k \<noteq> [] \<and>
        isAutoFillEnvVarsEnabled r \<longrightarrow>
        snd (monitorModelChange getProviderFromModel S r h) =
          [SetValue (blockId r) (subBlockId r) (JStr k)]) \<and>
     (m \<noteq> [] \<and> getProviderFromModel m = Some p \<and> p \<noteq> [] \<and> p \<noteq> ''ollama'' \<and>
        (resolveToolParamValue S p ''apiKey'' (blockId r) = None \<or>
         resolveToolParamValue S p ''apiKey'' (blockId r) = Some [] \<or>
         \<not> isAutoFillEnvVarsEnabled r) \<longrightarrow>
        snd (monitorModelChange getProviderFromModel S r h) =
          [SetValue (blockId r) (subBlockId r) (JStr [])]) \<and>
     (m = [] \<or> getProviderFromModel m = None \<or> getProviderFromModel m = Some [] \<or>
        getProviderFromModel m = Some ''ollama'' \<longrightarrow>
        snd (monitorModelChange getProviderFromModel S r h) = []) \<and>
     fst (monitorModelChange getProviderFromModel S r h) = h\<lparr>prevModelRef := Some m\<rparr>"
  using assms by (auto simp: monitorModelChange_def split: option.splits)

theorem monitorModelChange_calls_witness:
  "isApiKey demo_render \<and> isProviderBasedBlock demo_render \<and>
   modelValue demo_render = Some ''gpt-4o'' \<and> modelValue demo_render \<noteq> prevModelRef demo_state \<and>
   monitorModelChange demo_getProviderFromModel demo_subBlockStore demo_render demo_state =
     (demo_state\<lparr>prevModelRef := Some ''gpt-4o''\<rparr>,
      [SetValue ''b1'' ''apiKey'' (JStr ''sk-openai'')])"
proof -
  have a: "isApiKey demo_render" by (simp add: isApiKey_def demo_render_def)
  have b: "isProviderBasedBlock demo_render" by (simp add: isProviderBasedBlock_def demo_render_def)
  have c: "modelValue demo_render = Some ''gpt-4o''"
    by (simp add: modelValue_def isProviderBasedBlock_def demo_render_def)
  have d: "modelValue demo_render \<noteq> prevModelRef demo_state"
    by (simp add: modelValue_def isProviderBasedBlock_def demo_render_def demo_state_def)
  have e: "demo_getProviderFromModel ''gpt-4o'' = Some ''openai''"
    by (simp add: demo_getProviderFromModel_def)
  have f: "resolveToolParamValue demo_subBlockStore ''openai'' ''apiKey'' (blockId demo_render) = Some ''sk-openai''"
    by (simp add: demo_subBlockStore_def)
  have g: "isAutoFillEnvVarsEnabled demo_render" "blockId demo_render = ''b1''" "subBlockId demo_render = ''apiKey''"
    by (simp_all add: demo_render_def)
  from monitorModelChange_calls [OF a b c d, of demo_getProviderFromModel "''openai''" demo_subBlockStore "''sk-openai''"]
    e f g
  have "snd (monitorModelChange demo_getProviderFromModel demo_subBlockStore demo_render demo_state) =
     [SetValue ''b1'' ''apiKey'' (JStr ''sk-openai'')] \<and>
     fst (monitorModelChange demo_getProviderFromModel demo_subBlockStore demo_render demo_state) =
       demo_state\<lparr>prevModelRef := Some ''gpt-4o''\<rparr>" by simp
  then have "monitorModelChange demo_getProviderFromModel demo_subBlockStore demo_render demo_state =
     (demo_state\<lparr>prevModelRef := Some ''gpt-4o''\<rparr>,
      [SetValue ''b1'' ''apiKey'' (JStr ''sk-openai'')])"
    by (metis prod.collapse)
  with a b c d show ?thesis by blast
qed

text \<open>
  The claim as stated fails for a model of the provider \<open>ollama\<close>: the effect records
  the new model and leaves the field alone.
\<close>

theorem monitorModelChange_ollama_counterexample:
  "isApiKey demo_render_ollama \<and> isProviderBasedBlock demo_render_ollama \<and>
   modelValue demo_render_ollama = Some ''llama3'' \<and>
   prevModelRef demo_state = None \<and>
   demo_getProviderFromModel ''llama3'' = Some ''ollama'' \<and>
   monitorModelChange demo_getProviderFromModel demo_subBlockStore demo_render_ollama demo_state =
     (demo_state\<lparr>prevModelRef := Some ''llama3''\<rparr>, [])"
  by (simp add: isApiKey_def isProviderBasedBlock_def modelValue_def demo_render_ollama_def
      demo_render_def demo_state_def demo_getProviderFromModel_def monitorModelChange_def)

text \<open>
  C2, amended. With auto-fill enabled, on an API-key field: for an agent, router or
  evaluator block with a selected model whose provider is resolved and not \<open>ollama\<close>,
  the effect writes the stored key of the provider, whatever the field holds, and the empty
  string when there is no stored key; it writes nothing when no model is selected, no
  provider is resolved or the provider is \<open>ollama\<close>. For another block of known type
  it writes the stored value of the block type when that is non-empty and the field is
  empty, or the field holds an environment-variable reference \<open>{{...}}\<close> other than the
  stored value; else it writes nothing. With auto-fill disabled, or on a field that is not
  an API-key field, it writes nothing.
\<close>

theorem autoFillOnMount_calls:
  "(\<not> isAutoFillEnvVarsEnabled r \<or> \<not> isApiKey r \<longrightarrow>
      autoFillOnMount getProviderFromModel S r = []) \<and>
   (isAutoFillEnvVarsEnabled r \<and> isApiKey r \<and> isProviderBasedBlock r \<longrightarrow>
      (\<not> truthy_str (modelValue r) \<longrightarrow> autoFillOnMount getProviderFromModel S r = []) \<and>
      (\<forall>m. modelValue r = Some m \<and> m \<noteq> [] \<longrightarrow>
         (getProviderFromModel m = None \<or> getProviderFromModel m = Some [] \<or>
          getProviderFromModel m = Some ''ollama'' \<longrightarrow>
            autoFillOnMount getProviderFromModel S r = []) \<and>
         (\<forall>p. getProviderFromModel m = Some p \<and> p \<noteq> [] \<and> p \<noteq> ''ollama'' \<longrightarrow>
            autoFillOnMount getProviderFromModel S r =
              [SetValue (blockId r) (subBlockId r)
                 (JStr (case resolveToolParamValue S p ''apiKey'' (blockId r) of
                          None \<Rightarrow> [] | Some k \<Rightarrow> k))]))) \<and>
   (isAutoFillEnvVarsEnabled r \<and> isApiKey r \<and> \<not> isProviderBasedBlock r \<longrightarrow>
      (\<not> truthy_str (blockType r) \<longrightarrow> autoFillOnMount getProviderFromModel S r = []) \<and>
      (\<forall>bt. blockType r = Some bt \<and> bt \<noteq> [] \<longrightarrow>
         (\<not> truthy (storeValue r) \<or> isEnvVarReference (storeValue r) \<longrightarrow>
            autoFillOnMount getProviderFromModel S r =
              (case resolveToolParamValue S bt ''apiKey'' (blockId r) of
                 None \<Rightarrow> []
               | Some k \<Rightarrow>
                   if k \<noteq> [] \<and> storeValue r \<noteq> JStr k
                   then [SetValue (blockId r) (subBlockId r) (JStr k)] else [])) \<and>
         (truthy (storeValue r) \<and> \<not> isEnvVarReference (storeValue r) \<longrightarrow>
            autoFillOnMount getProviderFromModel S r = [])))"
proof (intro conjI impI allI)
  assume "\<not> isAutoFillEnvVarsEnabled r \<or> \<not> isApiKey r"
  then show "autoFillOnMount getProviderFromModel S r = []"
    by (auto simp: autoFillOnMount_def)
next
  assume "isAutoFillEnvVarsEnabled r \<and> isApiKey r \<and> isProviderBasedBlock r"
    and "\<not> truthy_str (modelValue r)"
  then show "autoFillOnMount getProviderFromModel S r = []"
    by (auto simp: autoFillOnMount_def handleProviderBasedApiKey_def truthy_str_def
        split: option.splits)
next
  fix m
  assume "isAutoFillEnvVarsEnabled r \<and> isApiKey r \<and> isProviderBasedBlock r"
    and "modelValue r = Some m \<and> m \<noteq> []"
    and "getProviderFromModel m = None \<or> getProviderFromModel m = Some [] \<or>
          getProviderFromModel m = Some ''ollama''"
  then show "autoFillOnMount getProviderFromModel S r = []"
    by (auto simp: autoFillOnMount_def handleProviderBasedApiKey_def)
next
  fix m p
  assume "isAutoFillEnvVarsEnabled r \<and> isApiKey r \<and> isProviderBasedBlock r"
    and "modelValue r = Some m \<and> m \<noteq> []"
    and "getProviderFromModel m = Some p \<and> p \<noteq> [] \<and> p \<noteq> ''ollama''"
  then show "autoFillOnMount getProviderFromModel S r =
              [SetValue (blockId r) (subBlockId r)
                 (JStr (case resolveToolParamValue S p ''apiKey'' (blockId r) of
                          None \<Rightarrow> [] | Some k \<Rightarrow> k))]"
    by (auto simp: autoFillOnMount_def handleProviderBasedApiKey_def split: option.splits)
next
  assume "isAutoFillEnvVarsEnabled r \<and> isApiKey r \<and> \<not> isProviderBasedBlock r"
    and "\<not> truthy_str (blockType r)"
  then show "autoFillOnMount getProviderFromModel S r = []"
    by (auto simp: autoFillOnMount_def handleStandardBlockApiKey_def truthy_str_def
        split: option.splits)
next
  fix bt
  assume a: "isAutoFillEnvVarsEnabled r \<and> isApiKey r \<and> \<not> isProviderBasedBlock r"
    and b: "blockType r = Some bt \<and> bt \<noteq> []"
    and c: "\<not> truthy (storeValue r) \<or> isEnvVarReference (storeValue r)"
  have e: "strictEquals (storeValue r) (JStr []) \<Longrightarrow> \<not> truthy (storeValue r)"
    by (rule strictEquals_empty_falsy)
  from a b c e show "autoFillOnMount getProviderFromModel S r =
              (case resolveToolParamValue S bt ''apiKey'' (blockId r) of
                 None \<Rightarrow> []
               | Some k \<Rightarrow>
                   if k \<noteq> [] \<and> storeValue r \<noteq> JStr k
                   then [SetValue (blockId r) (subBlockId r) (JStr k)] else [])"
    by (auto simp: autoFillOnMount_def handleStandardBlockApiKey_def split: option.splits)
next
  fix bt
  assume a: "isAutoFillEnvVarsEnabled r \<and> isApiKey r \<and> \<not> isProviderBasedBlock r"
    and b: "blockType r = Some bt \<and> bt \<noteq> []"
    and c: "truthy (storeValue r) \<and> \<not> isEnvVarReference (storeValue r)"
  have e: "strictEquals (storeValue r) (JStr []) \<Longrightarrow> \<not> truthy (storeValue r)"
    by (rule strictEquals_empty_falsy)
  from a b c e show "autoFillOnMount getProviderFromModel S r = []"
    by (auto simp: autoFillOnMount_def handleStandardBlockApiKey_def split: option.splits)
qed

theorem autoFillOnMount_calls_witness:
  "isAutoFillEnvVarsEnabled demo_render_exa \<and> isApiKey demo_render_exa \<and>
   \<not> isProviderBasedBlock demo_render_exa \<and> blockType demo_render_exa = Some ''exa'' \<and>
   \<not> truthy (storeValue demo_render_exa) \<and>
   autoFillOnMount demo_getProviderFromModel demo_subBlockStore demo_render_exa =
     [SetValue ''b2'' ''apiKey'' (JStr ''exa-key'')]"
proof -
  have a: "isAutoFillEnvVarsEnabled demo_render_exa" by (simp add: demo_render_exa_def)
  have b: "isApiKey demo_render_exa" by (simp add: isApiKey_def demo_render_exa_def)
  have c: "\<not> isProviderBasedBlock demo_render_exa"
    by (simp add: isProviderBasedBlock_def demo_render_exa_def)
  have d: "blockType demo_render_exa = Some ''exa''" by (simp add: demo_render_exa_def)
  have e: "\<not> truthy (storeValue demo_render_exa)" by (simp add: demo_render_exa_def)
  have f: "resolveToolParamValue demo_subBlockStore ''exa'' ''apiKey'' ''b2'' = Some ''exa-key''"
    by (simp add: demo_subBlockStore_def)
  have g: "blockId demo_render_exa = ''b2''" "subBlockId demo_render_exa = ''apiKey''"
      "storeValue demo_render_exa = JStr []"
    by (simp_all add: demo_render_exa_def)
  from autoFillOnMount_calls [of demo_render_exa demo_getProviderFromModel demo_subBlockStore]
    a b c d e
  have "autoFillOnMount demo_getProviderFromModel demo_subBlockStore demo_render_exa =
      (case resolveToolParamValue demo_subBlockStore ''exa'' ''apiKey'' (blockId demo_render_exa) of
         None \<Rightarrow> []
       | Some k \<Rightarrow>
           if k \<noteq> [] \<and> storeValue demo_render_exa \<noteq> JStr k
           then [SetValue (blockId demo_render_exa) (subBlockId demo_render_exa) (JStr k)] else [])"
    by simp
  then have "autoFillOnMount demo_getProviderFromModel demo_subBlockStore demo_render_exa =
     [SetValue ''b2'' ''apiKey'' (JStr ''exa-key'')]"
    by (simp add: f g)
  with a b c d e show ?thesis by blast
qed

text \<open>
  The claim as stated fails on an agent block whose field already holds a key: the stored
  key of the provider replaces it.
\<close>

theorem autoFillOnMount_overwrites_counterexample:
  "isAutoFillEnvVarsEnabled demo_render \<and> isApiKey demo_render \<and>
   storeValue demo_render = JStr ''sk-typed'' \<and>
   autoFillOnMount demo_getProviderFromModel demo_subBlockStore demo_render =
     [SetValue ''b1'' ''apiKey'' (JStr ''sk-openai'')]"
  by (simp add: isApiKey_def isProviderBasedBlock_def modelValue_def
      demo_render_def demo_getProviderFromModel_def demo_subBlockStore_def
      autoFillOnMount_def handleProviderBasedApiKey_def)

section \<open>Absent data\<close>




section \<open>The toolbar's block list\<close>









end
